theory Spec2Isabelle
  imports Main "HOL-Library.Word"
begin

unbundle bit_operations_syntax

section \<open>The embind module \<open>caitlyn_js.cpp\<close>\<close>

text \<open>
  The file \<open>docs/cxx/caitlyn_js.cpp\<close> is the JavaScript face of a C++ library: four
  free functions around \<open>_net_package\<close> (lines 47 to 80) and one
  \<open>EMSCRIPTEN_BINDINGS\<close> block that binds C++ classes and members to JavaScript names.
  The classes themselves (\<open>_net_package\<close>, \<open>_sv\<close>, the serializer) live in headers
  that the file only includes.
\<close>

subsection \<open>Bytes and sizes\<close>

type_synonym byte = "8 word"
type_synonym ByteArray = "byte list"

text \<open>\<open>size_t\<close> of the 32-bit WebAssembly target that \<open>emscripten/bind.h\<close> is built for.\<close>

type_synonym size_t = "32 word"

text \<open>\<open>std::vector::resize(n)\<close>: keeps the first \<open>n\<close> elements, fills new slots with zero.\<close>

definition resize :: "nat \<Rightarrow> ByteArray \<Rightarrow> ByteArray" where
  "resize n v = take n v @ replicate (n - length v) 0"

text \<open>
  \<open>std::copy(first, last, dest.begin())\<close> for a source that fits the destination: the
  source overwrites the destination's first elements, the rest stays.
\<close>

definition copy :: "ByteArray \<Rightarrow> ByteArray \<Rightarrow> ByteArray" where
  "copy src dest = src @ drop (length src) dest"

subsection \<open>NetHeader and NetPackage\<close>

text \<open>
  The two members of \<open>_net_package\<close> the file touches: \<open>m_pkgHeader.cmd\<close> (assigned an
  \<open>int16_t\<close>, line 54) and the byte vector \<open>m_pkgContent\<close> (lines 55, 56, 76, 79).
\<close>

record net_header =
  cmd :: "16 word"

record net_package =
  m_pkgHeader :: net_header
  m_pkgContent :: ByteArray

text \<open>
  The operations the file calls and does not define. Each one writes into a buffer that
  the caller passes by reference, so each takes the buffer's contents before the call and
  gives its contents after it:
  \<^item> \<open>pkg.encode(__buf)\<close>, line 59;
  \<^item> \<open>serializer::compress(__buf, __encode_buffer)\<close>, line 60;
  \<^item> \<open>serializer::uncompress(data, size, __buf)\<close>, line 66, whose result, if it has
    one, the caller drops;
  \<^item> \<open>pkg.decode(ptr, len)\<close>, line 68, which reads the \<open>len\<close> bytes at \<open>ptr\<close> and
    updates the package.

  They are parameters of the model. \<open>pkg.encode\<close> is taken to read the package and to
  write the buffer, nothing else; an exception out of one of them is not modelled.

  With them comes the one choice of \<open>std::vector\<close> that the module's state depends on:
  \<open>recommend c n\<close> is the capacity the vector asks for when its capacity \<open>c\<close> cannot
  hold \<open>n\<close> elements.
\<close>

record wire_ops =
  pkg_encode :: "net_package \<Rightarrow> ByteArray \<Rightarrow> ByteArray"
  compress :: "ByteArray \<Rightarrow> ByteArray \<Rightarrow> ByteArray"
  uncompress :: "ByteArray \<Rightarrow> ByteArray \<Rightarrow> ByteArray"
  pkg_decode :: "ByteArray \<Rightarrow> net_package \<Rightarrow> net_package"
  recommend :: "nat \<Rightarrow> nat \<Rightarrow> nat"

subsection \<open>The module's state and the views it hands out\<close>

text \<open>
  Line 47: \<open>ByteArray __encode_buffer;\<close> at file scope, one for the whole module. A
  vector is a size, a capacity and an allocation. \<open>encode_storage\<close> holds the bytes
  written into the current allocation, from its start; the vector's elements are the
  first \<open>encode_size\<close> of them, and bytes behind the size stay where they were written.
  \<open>encode_alloc\<close> tells one allocation from the next.
\<close>

record globals =
  encode_size :: nat
  encode_storage :: ByteArray
  encode_capacity :: nat
  encode_alloc :: nat

definition encode_buffer :: "globals \<Rightarrow> ByteArray" where
  "encode_buffer g = take (encode_size g) (encode_storage g)"

text \<open>The module as it is loaded: an empty vector that owns no storage.\<close>

definition new_globals :: globals where
  "new_globals = \<lparr>encode_size = 0, encode_storage = [], encode_capacity = 0, encode_alloc = 0\<rparr>"

text \<open>\<open>clear()\<close> sets the size to zero; capacity, storage and bytes stay.\<close>

definition vector_clear :: "globals \<Rightarrow> globals" where
  "vector_clear g = g\<lparr>encode_size := 0\<rparr>"

text \<open>
  The vector takes new elements, as \<open>compress\<close> leaves them in it. \<open>compress\<close> is taken
  to fill the vector it is given (\<open>resize\<close>, \<open>insert\<close>, \<open>push_back\<close>), not to swap
  another one in. Elements that fit the capacity are written over the start of the
  storage, and what lies behind them stays. Elements that do not fit make the vector
  allocate anew, with the capacity \<open>recommend\<close> gives and never less than they need,
  and free the old allocation.
\<close>

definition vector_fill :: "wire_ops \<Rightarrow> ByteArray \<Rightarrow> globals \<Rightarrow> globals" where
  "vector_fill ops elems g =
     (if length elems \<le> encode_capacity g
      then g\<lparr>encode_size := length elems,
             encode_storage := elems @ drop (length elems) (encode_storage g)\<rparr>
      else g\<lparr>encode_size := length elems,
             encode_storage := elems,
             encode_capacity := max (length elems) (recommend ops (encode_capacity g) (length elems)),
             encode_alloc := Suc (encode_alloc g)\<rparr>)"

text \<open>
  \<open>val(typed_memory_view(n, p))\<close> copies nothing: the JavaScript value is a window of
  \<open>n\<close> bytes onto the storage \<open>p\<close> points into. The file builds two of them, one onto
  the allocation \<open>__encode_buffer\<close> has at the time (line 61) and one onto a package's
  \<open>m_pkgContent\<close> (line 76).
\<close>

datatype storage = Encode_Buffer nat | Pkg_Content

record typed_memory_view =
  view_size :: nat
  view_data :: storage

text \<open>
  Reading a view gives what the storage holds at the time of the read. A window onto
  \<open>__encode_buffer\<close> reads the bytes of the allocation it was made on, elements or
  not, as long as the vector still has that allocation and the window stays within the
  bytes written; onto an allocation the vector has freed, or past the bytes written, the
  model gives no value. A window onto a package's content reads the content's elements.
\<close>

definition view_bytes :: "globals \<Rightarrow> net_package \<Rightarrow> typed_memory_view \<Rightarrow> ByteArray option" where
  "view_bytes g pkg v =
     (case view_data v of
        Encode_Buffer a \<Rightarrow>
          if a = encode_alloc g \<and> view_size v \<le> length (encode_storage g)
          then Some (take (view_size v) (encode_storage g))
          else None
      | Pkg_Content \<Rightarrow>
          if view_size v \<le> length (m_pkgContent pkg)
          then Some (take (view_size v) (m_pkgContent pkg))
          else None)"

subsection \<open>Error codes\<close>

text \<open>The enumeration \<open>ERROR_CODE\<close> as lines 143 to 191 bind it, in that order.\<close>

datatype ERROR_CODE =
    ERROR_SUCCESS | ERROR_FORMAT | ERROR_NO_CMD | ERROR_NO_FIELD | ERROR_EXIST_ACCOUNT
  | ERROR_SAVE_ACCOUNT | ERROR_SAVE_ORDER | ERROR_CANCEL_ORDER | ERROR_HANDLE_DB
  | ERROR_LOGIN_ACCOUNT | ERROR_NO_SEQ | ERROR_NO_LOGIN | ERROR_NO_LOGIN_PATTERN
  | ERROR_VALUE_NOT_EXIST | ERROR_NETWORK | ERROR_RESPONSE | ERROR_NO_INTERFACE
  | ERROR_ACTION | ERROR_NOT_READY | ERROR_INSUFFICIENT | ERROR_NO_SUPPORT_CMD
  | ERROR_NO_SUPPORT_VALUE | ERROR_SUCCESS_FORMULA | ERROR_SUCCESS_EXECUTER | ERROR_PLUGIN
  | ERROR_DATABASE | ERROR_INVALID_FIELD_TYPE | ERROR_TOKEN | ERROR_MARKET
  | ERROR_NAMESPACE | ERROR_QUALIFIED_NAME | ERROR_INVALID_PARAMETER
  | ERROR_INVALID_GRAMMAR | ERROR_NO_TOKEN | ERROR_EXPIRE_TOKEN
  | ERROR_CALCULATE_FAILURE | ERROR_FEYNMAN_NOT_READY | ERROR_INVALID_UUID
  | ERROR_NO_SESSION | ERROR_BINDED_ACCOUNT | ERROR_SYNC_FALURE | ERROR_NO_INDEX
  | ERROR_BROKER | ERROR_USER_RATE | ERROR_NO_ACCOUNT | ERROR_TRADE_LIMIT | ERROR_UNKNOWN

text \<open>
  How a call of the module can end other than by returning. \<open>Raised\<close> is an error code
  reported to the caller; \<open>Out_Of_Bounds\<close> is an access outside a vector's elements, which
  C++ leaves undefined (\<open>operator[]\<close> needs an index below \<open>size()\<close>).
\<close>

datatype fault = Raised ERROR_CODE | Out_Of_Bounds

subsection \<open>The four functions of lines 49 to 80\<close>

text \<open>
  \<open>_encode_package\<close>, lines 49 to 62, statement by statement. It returns the view, and
  the model returns with it the package and the module state as the call leaves them.
\<close>

definition encode_package ::
  "wire_ops \<Rightarrow> globals \<Rightarrow> net_package \<Rightarrow> 16 word \<Rightarrow> ByteArray
     \<Rightarrow> typed_memory_view \<times> net_package \<times> globals" where
  "encode_package ops g pkg c content =
     (let pkg1 = pkg\<lparr>m_pkgHeader := (m_pkgHeader pkg)\<lparr>cmd := c\<rparr>\<rparr>;
          pkg2 = pkg1\<lparr>m_pkgContent := resize (length content) (m_pkgContent pkg1)\<rparr>;
          pkg3 = pkg2\<lparr>m_pkgContent := copy content (m_pkgContent pkg2)\<rparr>;
          buf0 = [];
          g1 = vector_clear g;
          buf1 = pkg_encode ops pkg3 buf0;
          g2 = vector_fill ops (compress ops buf1 (encode_buffer g1)) g1
      in (\<lparr>view_size = encode_size g2, view_data = Encode_Buffer (encode_alloc g2)\<rparr>,
          pkg3, g2))"

text \<open>
  \<open>_decode_package\<close>, lines 63 to 70. The second argument of \<open>pkg.decode\<close> is the
  \<open>size_t\<close> difference \<open>__buf.size() - 8\<close>, which wraps around below 8.
\<close>

definition decode_length :: "ByteArray \<Rightarrow> size_t" where
  "decode_length buf = of_nat (length buf) - 8"

text \<open>
  The first argument is \<open>&__buf[8]\<close>: element 8 of \<open>__buf\<close>, which exists when the
  vector has more than 8 elements. Then the two arguments name the elements from index 8
  to the end. With 8 elements or fewer, element 8 is outside the vector. No statement of
  the function tests the size of \<open>__buf\<close>, and the function is \<open>void\<close> with no
  \<open>throw\<close>, so it never yields \<open>Raised\<close>.
\<close>

definition decode_package :: "wire_ops \<Rightarrow> net_package \<Rightarrow> ByteArray \<Rightarrow> fault + net_package" where
  "decode_package ops pkg data =
     (let buf0 = [] in
      if length data > 0 then
        (let buf1 = uncompress ops data buf0 in
         if length buf1 \<le> 8 then Inl Out_Of_Bounds
         else Inr (pkg_decode ops (drop 8 buf1) pkg))
      else Inr pkg)"




subsection \<open>The wire contract and one codec that meets it\<close>


text \<open>
  Modelled from the spec: \<open>_net_package::encode\<close> is not in the repository. The wire
  format gives the frame as \<open>cmd:int16\<close> followed by the content; the two bytes of
  \<open>cmd\<close> are taken low byte first, the order of WebAssembly memory.
\<close>

definition cmd_bytes :: "16 word \<Rightarrow> ByteArray" where
  "cmd_bytes c = [ucast c, ucast (drop_bit 8 c)]"

definition spec_pkg_encode :: "net_package \<Rightarrow> ByteArray \<Rightarrow> ByteArray" where
  "spec_pkg_encode pkg buf = buf @ cmd_bytes (cmd (m_pkgHeader pkg)) @ m_pkgContent pkg"

text \<open>
  Modelled from the spec: \<open>_net_package::decode\<close> is not in the repository. It reads
  \<open>cmd:int16\<close> and takes the remaining bytes as the content; a frame too short for
  \<open>cmd\<close> leaves the package as it is.
\<close>

definition cmd_of_bytes :: "byte \<Rightarrow> byte \<Rightarrow> 16 word" where
  "cmd_of_bytes b0 b1 = ucast b0 OR push_bit 8 (ucast b1)"

fun spec_pkg_decode :: "ByteArray \<Rightarrow> net_package \<Rightarrow> net_package" where
  "spec_pkg_decode (b0 # b1 # rest) pkg =
     pkg\<lparr>m_pkgHeader := (m_pkgHeader pkg)\<lparr>cmd := cmd_of_bytes b0 b1\<rparr>, m_pkgContent := rest\<rparr>"
| "spec_pkg_decode frame pkg = pkg"

text \<open>
  Modelled from the spec: \<open>serializer::compress\<close> is not in the repository, and the
  specification gives of it the fixed 8-byte header of sizing metadata and nothing of the
  algorithm. This stand-in writes the body's length as a 64-bit number, low byte first,
  and stores the body as it is.
\<close>

definition size_header :: "ByteArray \<Rightarrow> ByteArray" where
  "size_header body =
     map (\<lambda>i. ucast (drop_bit (8 * i) (of_nat (length body) :: 64 word))) [0..<8]"

definition spec_compress :: "ByteArray \<Rightarrow> ByteArray \<Rightarrow> ByteArray" where
  "spec_compress input out = out @ size_header input @ input"

text \<open>
  Modelled from the spec: \<open>serializer::uncompress\<close> is not in the repository. Its output
  begins with the 8-byte metadata region, followed by the body; when the header is absent,
  truncated or declares another size than the supplied buffer has, it fails and leaves
  the output buffer as it found it.
\<close>

definition spec_uncompress :: "ByteArray \<Rightarrow> ByteArray \<Rightarrow> ByteArray" where
  "spec_uncompress data out =
     (if 8 \<le> length data \<and> take 8 data = size_header (drop 8 data)
      then out @ take 8 data @ drop 8 data
      else out)"

text \<open>
  The growth rule of libc++, the standard library of emscripten: twice the capacity, or
  the size needed when that is more.
\<close>

definition libcxx_recommend :: "nat \<Rightarrow> nat \<Rightarrow> nat" where
  "libcxx_recommend c n = max (2 * c) n"

definition spec_ops :: wire_ops where
  "spec_ops = \<lparr>pkg_encode = spec_pkg_encode, compress = spec_compress,
                uncompress = spec_uncompress, pkg_decode = spec_pkg_decode,
                recommend = libcxx_recommend\<rparr>"

subsection \<open>Concrete packages\<close>

definition hello :: ByteArray where
  "hello = [0x68, 0x65, 0x6C, 0x6C, 0x6F]"


definition new_package :: net_package where
  "new_package = \<lparr>m_pkgHeader = \<lparr>cmd = 0\<rparr>, m_pkgContent = []\<rparr>"

definition hello_package :: net_package where
  "hello_package = \<lparr>m_pkgHeader = \<lparr>cmd = 1001\<rparr>, m_pkgContent = hello\<rparr>"

definition hello_wire :: ByteArray where
  "hello_wire = [7, 0, 0, 0, 0, 0, 0, 0, 0xE9, 0x03, 0x68, 0x65, 0x6C, 0x6C, 0x6F]"


text \<open>An input that decompresses to exactly 8 bytes: the header of an empty body.\<close>

definition empty_body_wire :: ByteArray where
  "empty_body_wire = [0, 0, 0, 0, 0, 0, 0, 0]"

definition first_encode :: "typed_memory_view \<times> net_package \<times> globals" where
  "first_encode = encode_package spec_ops new_globals new_package 1001 hello"


text \<open>A third package, after \<open>hello\<close>, whose 30 bytes outgrow the buffer.\<close>

definition thirty :: ByteArray where
  "thirty = replicate 30 0x41"

definition grown_encode :: "typed_memory_view \<times> net_package \<times> globals" where
  "grown_encode = encode_package spec_ops (snd (snd first_encode)) new_package 1001 thirty"

section \<open>The StructValue binding\<close>

subsection \<open>Field types and values\<close>

text \<open>
  The enumeration \<open>_data_type\<close> as lines 244 to 253 bind it; \<open>INT'\<close> is its \<open>INT\<close>.
\<close>

datatype data_type = INT' | DOUBLE | STRING | VINT | VDOUBLE | VSTRING | INT64 | VINT64

text \<open>
  A slot of a StructValue: a tagged value of one of the eight types, or a slot that was
  never written. A \<open>double\<close> is kept as its 64-bit pattern, which a store and a load
  leave as it is.
\<close>

datatype field_value =
    Empty_Field
  | Int32_Field "32 word"
  | Double_Field "64 word"
  | String_Field string
  | Int32Vector_Field "32 word list"
  | DoubleVector_Field "64 word list"
  | StringVector_Field "string list"
  | Int64_Field "64 word"
  | Int64Vector_Field "64 word list"

fun type_of :: "field_value \<Rightarrow> data_type option" where
  "type_of Empty_Field = None"
| "type_of (Int32_Field v) = Some INT'"
| "type_of (Double_Field v) = Some DOUBLE"
| "type_of (String_Field v) = Some STRING"
| "type_of (Int32Vector_Field v) = Some VINT"
| "type_of (DoubleVector_Field v) = Some VDOUBLE"
| "type_of (StringVector_Field v) = Some VSTRING"
| "type_of (Int64_Field v) = Some INT64"
| "type_of (Int64Vector_Field v) = Some VINT64"

fun zero_of :: "data_type \<Rightarrow> field_value" where
  "zero_of INT' = Int32_Field 0"
| "zero_of DOUBLE = Double_Field 0"
| "zero_of STRING = String_Field []"
| "zero_of VINT = Int32Vector_Field []"
| "zero_of VDOUBLE = DoubleVector_Field []"
| "zero_of VSTRING = StringVector_Field []"
| "zero_of INT64 = Int64_Field 0"
| "zero_of VINT64 = Int64Vector_Field []"

subsection \<open>The class \<open>_sv\<close>\<close>

text \<open>
  Modelled from the spec: the class \<open>_sv\<close> (header \<open>caitlyn_js_sv.hpp\<close>) is not in the
  repository. The record has the metadata that lines 211 to 216 bind as properties and
  the ordered fields of the specification's data model. A new StructValue has no field.
\<close>

record sv =
  sv_namespace :: int
  metaID :: int
  timeTag :: "64 word"
  granularity :: int
  market :: string
  stockCode :: string
  sv_fields :: "field_value list"

definition new_sv :: sv where
  "new_sv = \<lparr>sv_namespace = 0, metaID = 0, timeTag = 0, granularity = 0, market = [],
             stockCode = [], sv_fields = []\<rparr>"

text \<open>
  Modelled from the spec: \<open>_sv::size\<close> and \<open>_sv::resize\<close>, bound as the property
  \<open>fieldCount\<close> (line 217). Resizing keeps the values at the positions that remain and
  fills new slots empty.
\<close>

definition sv_size :: "sv \<Rightarrow> nat" where
  "sv_size s = length (sv_fields s)"

definition sv_resize :: "nat \<Rightarrow> sv \<Rightarrow> sv" where
  "sv_resize n s =
     s\<lparr>sv_fields := take n (sv_fields s) @ replicate (n - length (sv_fields s)) Empty_Field\<rparr>"

text \<open>
  Modelled from the spec: the typed getters of \<open>_sv\<close>. Reading at a position at or
  beyond the field count fails with \<open>ERROR_NO_FIELD\<close>; an empty slot reads as the zero
  or empty value of the type asked for; a slot of another type is a type mismatch.
\<close>

definition get_field :: "data_type \<Rightarrow> nat \<Rightarrow> sv \<Rightarrow> ERROR_CODE + field_value" where
  "get_field T pos s =
     (if length (sv_fields s) \<le> pos then Inl ERROR_NO_FIELD
      else (case sv_fields s ! pos of
              Empty_Field \<Rightarrow> Inr (zero_of T)
            | v \<Rightarrow> if type_of v = Some T then Inr v else Inl ERROR_INVALID_FIELD_TYPE))"

text \<open>
  Modelled from the spec: the typed setters of \<open>_sv\<close>. Writing at a position at or
  beyond the field count fails with \<open>ERROR_NO_FIELD\<close>; otherwise the slot takes the
  value, whatever it held (no schema is bound to a StructValue made by the binding).
\<close>

definition set_field :: "data_type \<Rightarrow> nat \<Rightarrow> field_value \<Rightarrow> sv \<Rightarrow> ERROR_CODE + sv" where
  "set_field T pos v s =
     (if length (sv_fields s) \<le> pos then Inl ERROR_NO_FIELD
      else if type_of v = Some T then Inr (s\<lparr>sv_fields := (sv_fields s)[pos := v]\<rparr>)
      else Inl ERROR_INVALID_FIELD_TYPE)"

subsection \<open>The bindings of lines 218 to 233\<close>

text \<open>
  The member functions of \<open>_sv\<close> that the typed accessor bindings name, and what each
  one is: the getter or the setter of a type.
\<close>

datatype sv_member =
    getInt | getInt64S | setInt64S | getDouble | setDouble | getString | setString
  | getInt32Vector | setInt32Vector | getInt64VectorS | setInt64VectorS
  | getStringVector | setStringVector | getDoubleVector | setDoubleVector

datatype accessor = Get data_type | Set data_type

fun accessor_of :: "sv_member \<Rightarrow> accessor" where
  "accessor_of getInt = Get INT'"
| "accessor_of getInt64S = Get INT64"
| "accessor_of setInt64S = Set INT64"
| "accessor_of getDouble = Get DOUBLE"
| "accessor_of setDouble = Set DOUBLE"
| "accessor_of getString = Get STRING"
| "accessor_of setString = Set STRING"
| "accessor_of getInt32Vector = Get VINT"
| "accessor_of setInt32Vector = Set VINT"
| "accessor_of getInt64VectorS = Get VINT64"
| "accessor_of setInt64VectorS = Set VINT64"
| "accessor_of getStringVector = Get VSTRING"
| "accessor_of setStringVector = Set VSTRING"
| "accessor_of getDoubleVector = Get VDOUBLE"
| "accessor_of setDoubleVector = Set VDOUBLE"

text \<open>
  The sixteen \<open>.function(name, &_sv::member)\<close> lines, 218 to 233, in the order of the
  file. Line 219 reads \<open>.function("setInt32", &_sv::getInt)\<close>.
\<close>

definition StructValue_functions :: "(string \<times> sv_member) list" where
  "StructValue_functions =
     [(''getInt32'', getInt),
      (''setInt32'', getInt),
      (''getInt64'', getInt64S),
      (''setInt64'', setInt64S),
      (''getDouble'', getDouble),
      (''setDouble'', setDouble),
      (''getString'', getString),
      (''setString'', setString),
      (''getInt32Vector'', getInt32Vector),
      (''setInt32Vector'', setInt32Vector),
      (''getInt64Vector'', getInt64VectorS),
      (''setInt64Vector'', setInt64VectorS),
      (''getStringVector'', getStringVector),
      (''setStringVector'', setStringVector),
      (''getDoubleVector'', getDoubleVector),
      (''setDoubleVector'', setDoubleVector)]"

subsection \<open>Calls from JavaScript\<close>

text \<open>
  A call passes a list of arguments: slot indices and field values. It ends with a value,
  with nothing (a \<open>void\<close> member), or with an error: the error code of the member, or
  embind's \<open>BindingError\<close> for a call the bound member cannot take.
\<close>

datatype js_arg = Index nat | Value field_value

datatype js_error = BindingError | Error ERROR_CODE

type_synonym js_result = "js_error + field_value option"

text \<open>A getter takes a position, a setter a position and a value.\<close>

fun arity :: "accessor \<Rightarrow> nat" where
  "arity (Get T) = 1"
| "arity (Set T) = 2"

fun call_accessor :: "accessor \<Rightarrow> js_arg list \<Rightarrow> sv \<Rightarrow> js_result \<times> sv" where
  "call_accessor (Get T) [Index pos] s =
     (case get_field T pos s of
        Inl e \<Rightarrow> (Inl (Error e), s)
      | Inr v \<Rightarrow> (Inr (Some v), s))"
| "call_accessor (Set T) [Index pos, Value v] s =
     (case set_field T pos v s of
        Inl e \<Rightarrow> (Inl (Error e), s)
      | Inr s' \<Rightarrow> (Inr None, s'))"
| "call_accessor a args s = (Inl BindingError, s)"

text \<open>
  \<open>sv.name(args)\<close>: the member bound under \<open>name\<close> is called. The invoker that embind
  generates either checks the number of arguments against the member's parameters
  (\<open>checked\<close>) and throws \<open>BindingError\<close> on a mismatch, or hands the member the
  arguments it has parameters for and drops the rest; which of the two depends on the
  emscripten release and build, so it is a parameter. Too few arguments never fit.
\<close>

definition invoke :: "bool \<Rightarrow> string \<Rightarrow> js_arg list \<Rightarrow> sv \<Rightarrow> js_result \<times> sv" where
  "invoke checked name args s =
     (case map_of StructValue_functions name of
        None \<Rightarrow> (Inl BindingError, s)
      | Some m \<Rightarrow>
          if length args = arity (accessor_of m) then call_accessor (accessor_of m) args s
          else if checked \<or> length args < arity (accessor_of m) then (Inl BindingError, s)
          else call_accessor (accessor_of m) (take (arity (accessor_of m)) args) s)"

text \<open>The argument list a member is declared with: its own parameters.\<close>

definition own_args :: "accessor \<Rightarrow> nat \<Rightarrow> field_value \<Rightarrow> js_arg list" where
  "own_args a pos v = (case a of Get T \<Rightarrow> [Index pos] | Set T \<Rightarrow> [Index pos, Value v])"

subsection \<open>A StructValue of three fields\<close>

text \<open>The doubles 1.5 and 2.5 as IEEE 754 bit patterns.\<close>

definition one_and_a_half :: "64 word" where
  "one_and_a_half = 0x3FF8000000000000"

definition two_and_a_half :: "64 word" where
  "two_and_a_half = 0x4004000000000000"

text \<open>
  \<open>sv = new StructValue(); sv.fieldCount = 3; sv.setInt32(0, 42);
  sv.setString(1, "AAPL"); sv.setDoubleVector(2, [1.5, 2.5])\<close>
\<close>

definition three_fields :: "bool \<Rightarrow> sv" where
  "three_fields checked =
     snd (invoke checked ''setDoubleVector''
            [Index 2, Value (DoubleVector_Field [one_and_a_half, two_and_a_half])]
       (snd (invoke checked ''setString'' [Index 1, Value (String_Field ''AAPL'')]
         (snd (invoke checked ''setInt32'' [Index 0, Value (Int32_Field 42)]
           (sv_resize 3 new_sv))))))"

section \<open>Properties of the wire functions\<close>

subsection \<open>The module's vector\<close>

lemma encode_buffer_vector_clear: "encode_buffer (vector_clear g) = []"
  by (simp add: encode_buffer_def vector_clear_def)

lemma encode_buffer_vector_fill: "encode_buffer (vector_fill ops elems g) = elems"
  by (simp add: encode_buffer_def vector_fill_def)

lemma encode_size_vector_fill: "encode_size (vector_fill ops elems g) = length elems"
  by (simp add: vector_fill_def)

lemma vector_fill_written:
  "encode_size (vector_fill ops elems g) \<le> length (encode_storage (vector_fill ops elems g))"
  by (simp add: vector_fill_def)



subsection \<open>What a call of \<open>_encode_package\<close> leaves behind\<close>

lemma copy_resize: "copy content (resize (length content) v) = content"
  by (simp add: copy_def resize_def)

lemma encode_package_pkg:
  "fst (snd (encode_package ops g pkg c content)) =
     pkg\<lparr>m_pkgHeader := (m_pkgHeader pkg)\<lparr>cmd := c\<rparr>, m_pkgContent := content\<rparr>"
  by (simp add: encode_package_def Let_def copy_resize)

lemma encode_package_globals:
  "snd (snd (encode_package ops g pkg c content)) =
     vector_fill ops
       (compress ops (pkg_encode ops (fst (snd (encode_package ops g pkg c content))) []) [])
       (vector_clear g)"
  by (simp add: encode_package_def Let_def encode_buffer_vector_clear)

lemma encode_package_buffer:
  "encode_buffer (snd (snd (encode_package ops g pkg c content))) =
     compress ops (pkg_encode ops (fst (snd (encode_package ops g pkg c content))) []) []"
  by (subst encode_package_globals) (rule encode_buffer_vector_fill)

lemma encode_package_written:
  "encode_size (snd (snd (encode_package ops g pkg c content)))
     \<le> length (encode_storage (snd (snd (encode_package ops g pkg c content))))"
  by (subst (1 2) encode_package_globals) (rule vector_fill_written)

lemma encode_package_view:
  "fst (encode_package ops g pkg c content) =
     \<lparr>view_size = encode_size (snd (snd (encode_package ops g pkg c content))),
      view_data = Encode_Buffer (encode_alloc (snd (snd (encode_package ops g pkg c content))))\<rparr>"
  by (simp add: encode_package_def Let_def)

lemma encode_package_view_bytes:
  "view_bytes (snd (snd (encode_package ops g pkg c content))) p
     (fst (encode_package ops g pkg c content))
   = Some (encode_buffer (snd (snd (encode_package ops g pkg c content))))"
  using encode_package_written [of ops g pkg c content]
  by (simp add: encode_package_view view_bytes_def encode_buffer_def)


subsection \<open>The shared buffer\<close>


lemma size_header_length: "length (size_header b) = 8"
  by (simp add: size_header_def)

lemma spec_encode_package:
  "encode_package spec_ops g pkg c content =
     (\<lparr>view_size = length (size_header (cmd_bytes c @ content) @ cmd_bytes c @ content),
       view_data = Encode_Buffer
         (encode_alloc (vector_fill spec_ops
            (size_header (cmd_bytes c @ content) @ cmd_bytes c @ content) (vector_clear g)))\<rparr>,
      pkg\<lparr>m_pkgHeader := (m_pkgHeader pkg)\<lparr>cmd := c\<rparr>, m_pkgContent := content\<rparr>,
      vector_fill spec_ops
        (size_header (cmd_bytes c @ content) @ cmd_bytes c @ content) (vector_clear g))"
proof -
  have "compress spec_ops (pkg_encode spec_ops
          (pkg\<lparr>m_pkgHeader := (m_pkgHeader pkg)\<lparr>cmd := c\<rparr>, m_pkgContent := content\<rparr>) []) []
        = size_header (cmd_bytes c @ content) @ cmd_bytes c @ content"
    by (simp add: spec_ops_def spec_pkg_encode_def spec_compress_def)
  then show ?thesis
    by (simp add: encode_package_def Let_def copy_resize encode_buffer_vector_clear
        encode_size_vector_fill)
qed

lemma hello_frame: "size_header (cmd_bytes 1001 @ hello) @ cmd_bytes 1001 @ hello = hello_wire"
  by (simp add: hello_wire_def hello_def cmd_bytes_def size_header_def upt_rec)


lemma length_hello_wire: "length hello_wire = 15"
  by (simp add: hello_wire_def)


lemma recommend_spec_ops: "recommend spec_ops = libcxx_recommend"
  by (simp add: spec_ops_def)

lemma first_encode_eq:
  "first_encode =
     (\<lparr>view_size = 15, view_data = Encode_Buffer 1\<rparr>, hello_package,
      \<lparr>encode_size = 15, encode_storage = hello_wire, encode_capacity = 15, encode_alloc = 1\<rparr>)"
  by (simp add: first_encode_def spec_encode_package hello_frame vector_fill_def
      vector_clear_def new_globals_def length_hello_wire recommend_spec_ops
      libcxx_recommend_def hello_package_def new_package_def)



text \<open>
  \<open>hello\<close> and then 30 bytes: the second output of 40 bytes does not fit the capacity
  of 15, the buffer moves to a new allocation, and the first view is left on the old one.
\<close>

lemma grown_encode_leaves_view_behind:
  "encode_capacity (snd (snd first_encode)) = 15
   \<and> length (encode_buffer (snd (snd grown_encode))) = 40
   \<and> encode_alloc (snd (snd grown_encode)) = 2
   \<and> view_bytes (snd (snd grown_encode)) (fst (snd grown_encode)) (fst first_encode) = None"
  by (simp add: grown_encode_def spec_encode_package first_encode_eq vector_fill_def
      vector_clear_def view_bytes_def encode_buffer_def size_header_length cmd_bytes_def
      thirty_def)

subsection \<open>Decoding\<close>

text \<open>
  C4, as the code has it. Decoding a zero-length buffer returns without error and leaves
  the package exactly as it was: the guard of line 65 skips the whole body, so no
  operation of the codec runs and nothing is cleared. The package is empty afterwards
  when it was empty before.
\<close>

theorem decode_package_empty_input: "decode_package ops pkg [] = Inr pkg"
  by (simp add: decode_package_def)

text \<open>A package that holds \<open>hello\<close> still holds it after decoding the empty buffer.\<close>

theorem decode_package_empty_input_counterexample:
  "decode_package spec_ops hello_package [] = Inr hello_package
   \<and> m_pkgContent hello_package = hello
   \<and> hello \<noteq> []"
  by (simp add: decode_package_def hello_package_def hello_def)

lemma decode_length_in_range:
  "8 \<le> length buf \<Longrightarrow> length buf < 2 ^ 32 \<Longrightarrow> unat (decode_length buf) = length buf - 8"
  by (simp add: decode_length_def unat_sub_if' word_le_nat_alt unat_of_nat
      take_bit_nat_eq_self)

lemma decode_length_wraps:
  "length buf < 8 \<Longrightarrow> unat (decode_length buf) = 2 ^ 32 - 8 + length buf"
  by (simp add: decode_length_def unat_sub_if' word_le_nat_alt unat_of_nat
      take_bit_nat_eq_self)

text \<open>The function has no error code to give, whatever the input.\<close>

lemma decode_package_never_raises: "decode_package ops pkg data \<noteq> Inl (Raised e)"
  by (simp add: decode_package_def Let_def)

text \<open>
  C8, as the code has it. For a non-empty input whose decompressed buffer holds more than
  8 bytes (and, as every buffer of the 32-bit target, fewer than \<open>2^32\<close>), element 8 is
  an element of the buffer, the subtraction \<open>size - 8\<close> does not wrap and is the number
  of bytes handed to \<open>pkg.decode\<close>, and \<open>pkg.decode\<close> gets exactly the bytes after the
  first 8.
\<close>

theorem decode_package_from_offset_8:
  assumes "0 < length data"
    and "8 < length (uncompress ops data [])"
    and "length (uncompress ops data []) < 2 ^ 32"
  shows "decode_package ops pkg data = Inr (pkg_decode ops (drop 8 (uncompress ops data [])) pkg)
         \<and> unat (decode_length (uncompress ops data [])) = length (drop 8 (uncompress ops data []))"
  using assms by (simp add: decode_package_def decode_length_in_range)

lemma spec_uncompress_hello_wire: "uncompress spec_ops hello_wire [] = hello_wire"
  by (simp add: spec_ops_def spec_uncompress_def size_header_def upt_rec hello_wire_def)

theorem decode_package_from_offset_8_witness:
  "0 < length hello_wire
   \<and> 8 < length (uncompress spec_ops hello_wire [])
   \<and> length (uncompress spec_ops hello_wire []) < 2 ^ 32
   \<and> decode_package spec_ops new_package hello_wire
        = Inr (pkg_decode spec_ops (drop 8 (uncompress spec_ops hello_wire [])) new_package)
   \<and> unat (decode_length (uncompress spec_ops hello_wire []))
        = length (drop 8 (uncompress spec_ops hello_wire []))"
proof -
  have h: "0 < length hello_wire" "8 < length (uncompress spec_ops hello_wire [])"
    "length (uncompress spec_ops hello_wire []) < 2 ^ 32"
    by (simp_all add: spec_uncompress_hello_wire length_hello_wire)
  show ?thesis
    using h decode_package_from_offset_8 [OF h, of new_package] by simp
qed

text \<open>
  The one-byte input \<open>[1]\<close> has no 8-byte header: the decompressor leaves the buffer
  empty, and \<open>_decode_package\<close> goes on to element 8 of an empty vector with the length
  \<open>0 - 8\<close>, which is \<open>0xFFFFFFF8\<close>. No \<open>ERROR_FORMAT\<close> comes back. The header of an
  empty body decompresses to exactly 8 bytes, and element 8 is outside those as well.
\<close>

theorem decode_package_truncated_counterexample:
  "0 < length [1 :: byte]
   \<and> uncompress spec_ops [1] [] = []
   \<and> decode_package spec_ops new_package [1] = Inl Out_Of_Bounds
   \<and> decode_package spec_ops new_package [1] \<noteq> Inl (Raised ERROR_FORMAT)
   \<and> decode_length (uncompress spec_ops [1] []) = 0xFFFFFFF8
   \<and> length (uncompress spec_ops empty_body_wire []) = 8
   \<and> decode_package spec_ops new_package empty_body_wire = Inl Out_Of_Bounds"
  by (simp add: decode_package_def spec_ops_def spec_uncompress_def decode_length_def
      empty_body_wire_def size_header_def upt_rec)

subsection \<open>The round trip\<close>






text \<open>
  Command 1001 with the content \<open>hello\<close>, under the stand-in codec: the wire bytes are
  \<open>hello_wire\<close>, and they decode into a new package as command 1001 and \<open>hello\<close>.
\<close>

lemma spec_decode_hello_wire:
  "decode_package spec_ops new_package hello_wire = Inr hello_package"
  by (simp add: decode_package_def spec_ops_def spec_uncompress_def size_header_def upt_rec
      hello_wire_def hello_package_def new_package_def hello_def cmd_of_bytes_def)


text \<open>
  The contract cannot be traded for an exact inverse. If \<open>pkg.encode\<close> writes the
  frame \<open>cmd:int16\<close> followed by the content and \<open>uncompress\<close> gives back exactly what
  \<open>compress\<close> was given, then for a content of 6 bytes or fewer the decompressed
  buffer has 8 bytes or fewer, and \<open>_decode_package\<close>, which goes to element 8, reads
  outside it. The five bytes of \<open>hello\<close> are such a content.
\<close>

lemma exact_inverse_reads_out_of_bounds:
  assumes enc: "pkg_encode ops = spec_pkg_encode"
    and inv: "\<forall>b. uncompress ops (compress ops b []) [] = b"
    and hdr: "\<forall>b. 8 \<le> length (compress ops b [])"
    and short: "length content \<le> 6"
  shows "case encode_package ops g pkg c content of
           (v, p, g1) \<Rightarrow>
             view_bytes g1 p v = Some (encode_buffer g1)
             \<and> decode_package ops pkg' (encode_buffer g1) = Inl Out_Of_Bounds"
proof -
  let ?E = "encode_package ops g pkg c content"
  let ?p = "fst (snd ?E)"
  let ?frame = "spec_pkg_encode ?p []"
  let ?wire = "compress ops ?frame []"
  have buf: "encode_buffer (snd (snd ?E)) = ?wire"
    by (simp add: encode_package_buffer enc)
  have view: "view_bytes (snd (snd ?E)) ?p (fst ?E) = Some (encode_buffer (snd (snd ?E)))"
    by (rule encode_package_view_bytes)
  have len: "length ?frame \<le> 8"
    using short by (simp add: spec_pkg_encode_def cmd_bytes_def encode_package_pkg)
  have un: "uncompress ops ?wire [] = ?frame"
    using inv by simp
  from hdr have "8 \<le> length ?wire"
    by blast
  then have "0 < length ?wire"
    by linarith
  then have "decode_package ops pkg' ?wire = Inl Out_Of_Bounds"
    using len un by (simp add: decode_package_def)
  then show ?thesis
    using view buf by (simp add: case_prod_beta)
qed

section \<open>Properties of the StructValue binding\<close>

subsection \<open>The name \<open>setInt32\<close>\<close>

lemma setInt32_member: "map_of StructValue_functions ''setInt32'' = Some getInt"
  by (simp add: StructValue_functions_def)

lemma getter_keeps_sv: "call_accessor (Get T) args s = (r, s') \<Longrightarrow> s' = s"
  by (cases "(Get T, args, s)" rule: call_accessor.cases) (auto split: sum.splits)

lemma invoke_setInt32_keeps_sv: "snd (invoke checked ''setInt32'' args s) = s"
  by (cases "call_accessor (Get INT') args s";
      cases "call_accessor (Get INT') (take (Suc 0) args) s")
    (auto simp: invoke_def setInt32_member dest: getter_keeps_sv)

lemma three_fields_eq:
  "three_fields checked =
     new_sv\<lparr>sv_fields := [Empty_Field, String_Field ''AAPL'',
                          DoubleVector_Field [one_and_a_half, two_and_a_half]]\<rparr>"
  by (simp add: three_fields_def invoke_setInt32_keeps_sv)
    (simp add: invoke_def StructValue_functions_def set_field_def sv_resize_def new_sv_def
      numeral_3_eq_3 numeral_2_eq_2)

text \<open>
  C2, where the code departs from it. The name \<open>setInt32\<close> is bound to the getter
  \<open>_sv::getInt\<close> (line 219), so \<open>sv.setInt32(0, 42)\<close> stores nothing, with or without
  embind's check of the argument count: in the StructValue of three fields,
  \<open>getInt32(0)\<close> gives 0 and not 42, while \<open>getString(1)\<close> and \<open>getDoubleVector(2)\<close>
  give what was set and the field count is 3.
\<close>

theorem setInt32_stores_nothing:
  "map_of StructValue_functions ''setInt32'' = Some getInt
   \<and> snd (invoke checked ''setInt32'' [Index 0, Value (Int32_Field 42)] s) = s
   \<and> sv_size (three_fields checked) = 3
   \<and> fst (invoke checked ''getInt32'' [Index 0] (three_fields checked))
        = Inr (Some (Int32_Field 0))
   \<and> Int32_Field 0 \<noteq> Int32_Field 42
   \<and> fst (invoke checked ''getString'' [Index 1] (three_fields checked))
        = Inr (Some (String_Field ''AAPL''))
   \<and> fst (invoke checked ''getDoubleVector'' [Index 2] (three_fields checked))
        = Inr (Some (DoubleVector_Field [one_and_a_half, two_and_a_half]))"
  by (simp add: three_fields_eq setInt32_member invoke_setInt32_keeps_sv)
    (simp add: invoke_def StructValue_functions_def get_field_def sv_size_def new_sv_def
      numeral_2_eq_2)

text \<open>
  The members of \<open>_sv\<close> themselves do round-trip in the model: a setter that succeeds
  is read back by the getter of the same type.
\<close>

lemma set_field_get_field:
  assumes "set_field T pos v s = Inr s'"
  shows "get_field T pos s' = Inr v"
  using assms by (cases v) (auto simp: set_field_def get_field_def split: if_splits)

subsection \<open>Positions beyond the field count\<close>

lemma length_own_args: "length (own_args a pos v) = arity a"
  by (cases a) (simp_all add: own_args_def)

lemma call_accessor_out_of_range:
  "length (sv_fields s) \<le> pos \<Longrightarrow>
     call_accessor a (own_args a pos v) s = (Inl (Error ERROR_NO_FIELD), s)"
  by (cases a) (simp_all add: own_args_def get_field_def set_field_def)

text \<open>
  In the model of \<open>_sv\<close>, every bound member, called with its own parameters at a
  position at or beyond the field count, fails with \<open>ERROR_NO_FIELD\<close> and leaves the
  StructValue as it was.
\<close>

lemma bound_member_out_of_range:
  assumes "map_of StructValue_functions name = Some m"
    and "sv_size s \<le> pos"
  shows "invoke checked name (own_args (accessor_of m) pos v) s
           = (Inl (Error ERROR_NO_FIELD), s)"
  using assms
  by (simp add: invoke_def length_own_args call_accessor_out_of_range sv_size_def)

text \<open>
  C9, where the code departs from it. \<open>setInt32\<close> is called as a setter, with a position
  and a value, and the member bound to it is the one-parameter getter (line 219). On a
  StructValue of three fields, \<open>sv.setInt32(3, 7)\<close> under embind's check of the argument
  count ends in \<open>BindingError\<close>, not in \<open>ERROR_NO_FIELD\<close>; without the check the value
  7 is dropped and the getter runs. The properly bound \<open>setInt64(3, 7)\<close> ends in
  \<open>ERROR_NO_FIELD\<close> in the model.
\<close>

theorem setInt32_out_of_range_is_binding_error:
  "sv_size (sv_resize 3 new_sv) = 3
   \<and> invoke True ''setInt32'' [Index 3, Value (Int32_Field 7)] (sv_resize 3 new_sv)
        = (Inl BindingError, sv_resize 3 new_sv)
   \<and> BindingError \<noteq> Error ERROR_NO_FIELD
   \<and> invoke False ''setInt32'' [Index 3, Value (Int32_Field 7)] (sv_resize 3 new_sv)
        = invoke False ''getInt32'' [Index 3] (sv_resize 3 new_sv)
   \<and> invoke True ''setInt64'' [Index 3, Value (Int64_Field 7)] (sv_resize 3 new_sv)
        = (Inl (Error ERROR_NO_FIELD), sv_resize 3 new_sv)"
  by (simp add: invoke_def StructValue_functions_def sv_size_def sv_resize_def new_sv_def
      set_field_def)

end
